theory Spec2Isabelle
  imports Main "HOL-Library.Sublist"
begin

section \<open>Data model of \<^verbatim>\<open>App.tsx\<close>\<close>

text \<open>
  Strings are lists of code units. A \<^typ>\<open>char\<close> is one code unit below 256, which covers
  every character the handlers inspect themselves (white space, digits, the hyphen).

  The columns \<^verbatim>\<open>created_at\<close> and \<^verbatim>\<open>updated_at\<close> are \<^verbatim>\<open>timestamptz\<close> in the table and
  arrive as text; the client only stores them and the store alone compares them, as
  instants. They are kept as instants (microseconds since the epoch).
\<close>

type_synonym timestamp = nat

text \<open>
  The object literal \<^verbatim>\<open>payload\<close> of \<^verbatim>\<open>handleSubmitTodo\<close>; \<^verbatim>\<open>null\<close> is \<^term>\<open>None\<close>.
\<close>

record payload =
  title :: string
  description :: "string option"
  due_date :: "string option"
  user_id :: string

text \<open>
  The type \<^verbatim>\<open>Todo\<close>: the four fields it shares with the payload, and four more. The field
  \<^verbatim>\<open>id\<close> is \<open>id_todo\<close> here.
\<close>

record todo = payload +
  id_todo :: string
  completed :: bool
  created_at :: timestamp
  updated_at :: timestamp

text \<open>The type \<^verbatim>\<open>Filter\<close>.\<close>

datatype Filter = All | Active | Completed

text \<open>
  Of a \<^verbatim>\<open>Session\<close> the component reads \<^verbatim>\<open>session.user.id\<close> only.
\<close>

datatype session = Session (session_user_id: string)

text \<open>
  The requests the component builds on \<^verbatim>\<open>supabase.from('todos')\<close>:
  \<^item> \<^verbatim>\<open>.select('*').order('created_at', { ascending: false })\<close>
  \<^item> \<^verbatim>\<open>.insert(payload)\<close>
  \<^item> \<^verbatim>\<open>.update(payload).eq('id', editingId)\<close>
  \<^item> \<^verbatim>\<open>.update({ completed: b }).eq('id', id)\<close>
  \<^item> \<^verbatim>\<open>.delete().eq('id', id)\<close>
\<close>

datatype request =
    Select_ordered
  | Insert payload
  | Update_payload payload string
  | Update_completed bool string
  | Delete string

text \<open>
  What an awaited request resolves to: \<^verbatim>\<open>{ data, error }\<close>, where \<open>error_message\<close> is
  \<^verbatim>\<open>error.message\<close> when \<^verbatim>\<open>error\<close> is not null.
\<close>

record response =
  data :: "todo list option"
  error_message :: "string option"

text \<open>
  The state variables of the component (\<^verbatim>\<open>useState\<close>). The drafts \<^verbatim>\<open>title\<close> and
  \<^verbatim>\<open>description\<close> are \<open>title_draft\<close> and \<open>description_draft\<close>, and \<^verbatim>\<open>filter\<close> is
  \<open>filter_sel\<close>. The variables of the login form (\<^verbatim>\<open>authMode\<close>, \<^verbatim>\<open>email\<close>, \<^verbatim>\<open>password\<close>,
  \<^verbatim>\<open>authLoading\<close>) are left out with \<^verbatim>\<open>handleAuth\<close> and \<^verbatim>\<open>handleLogout\<close>, which talk to the
  auth client only.
\<close>

record app =
  session :: "session option"
  loading :: bool
  todos :: "todo list"
  error :: "string option"
  title_draft :: string
  description_draft :: string
  dueDate :: string
  editingId :: "string option"
  filter_sel :: Filter

text \<open>
  The component together with the store it talks to: \<open>db\<close> is the state of the remote
  store and \<open>calls\<close> the requests sent to it so far, oldest first.
\<close>

record 'db world = app +
  db :: 'db
  calls :: "request list"

text \<open>
  A store answers a request of a caller (the authenticated user identifier, if any) and
  moves to a new state.
\<close>

type_synonym 'db server = "'db \<Rightarrow> string option \<Rightarrow> request \<Rightarrow> response \<times> 'db"

section \<open>The filtered view\<close>

text \<open>\<^verbatim>\<open>filteredTodos\<close>, a \<^verbatim>\<open>useMemo\<close> over \<^verbatim>\<open>[todos, filter]\<close>.\<close>

definition filteredTodos :: "todo list \<Rightarrow> Filter \<Rightarrow> todo list" where
  "filteredTodos ts f =
     (if f = Active then filter (\<lambda>t. \<not> completed t) ts
      else if f = Completed then filter (\<lambda>t. completed t) ts
      else ts)"

section \<open>The string and date operations of the runtime\<close>

text \<open>
  \<^verbatim>\<open>String.prototype.trim\<close> removes white space and line terminators from both ends.
  Below 256 these are the code units 9 to 13, 32 and 160.
\<close>

definition is_space :: "char \<Rightarrow> bool" where
  "is_space c = (of_char c \<in> {9::nat, 10, 11, 12, 13, 32, 160})"

definition trim :: "string \<Rightarrow> string" where
  "trim s = rev (dropWhile is_space (rev (dropWhile is_space s)))"

text \<open>\<^verbatim>\<open>s.slice(0, 10)\<close>: the first ten code units, or all of them when there are fewer.\<close>

definition slice_0_10 :: "string \<Rightarrow> string" where
  "slice_0_10 s = take 10 s"

text \<open>
  \<^verbatim>\<open>new Date(s).toISOString()\<close>. For the date-only form \<^verbatim>\<open>YYYY-MM-DD\<close> of the language's
  date-time string format, the date is read as midnight UTC of that calendar day and
  printed as \<^verbatim>\<open>YYYY-MM-DDT00:00:00.000Z\<close>. For every other string the result depends on
  the engine (it may accept the string, or build an invalid date, on which
  \<^verbatim>\<open>toISOString\<close> throws a \<^verbatim>\<open>RangeError\<close>): that part is the parameter \<open>engine\<close>.
\<close>

datatype js_error = RangeError

definition is_digit :: "char \<Rightarrow> bool" where
  "is_digit c = (48 \<le> (of_char c :: nat) \<and> (of_char c :: nat) \<le> 57)"

definition digit_val :: "char \<Rightarrow> nat" where
  "digit_val c = of_char c - 48"

definition leap_year :: "nat \<Rightarrow> bool" where
  "leap_year y = (y mod 4 = 0 \<and> (y mod 100 \<noteq> 0 \<or> y mod 400 = 0))"

definition days_in_month :: "nat \<Rightarrow> nat \<Rightarrow> nat" where
  "days_in_month y m =
     (if m = 2 then (if leap_year y then 29 else 28)
      else if m \<in> {4, 6, 9, 11} then 30
      else 31)"

fun date_only :: "string \<Rightarrow> bool" where
  "date_only [y1, y2, y3, y4, h1, m1, m2, h2, d1, d2] =
     (h1 = CHR ''-'' \<and> h2 = CHR ''-'' \<and> list_all is_digit [y1, y2, y3, y4, m1, m2, d1, d2] \<and>
      (let y = 1000 * digit_val y1 + 100 * digit_val y2 + 10 * digit_val y3 + digit_val y4;
           m = 10 * digit_val m1 + digit_val m2;
           d = 10 * digit_val d1 + digit_val d2
       in 1 \<le> m \<and> m \<le> 12 \<and> 1 \<le> d \<and> d \<le> days_in_month y m))"
| "date_only _ = False"

definition Date_toISOString :: "(string \<Rightarrow> js_error + string) \<Rightarrow> string \<Rightarrow> js_error + string" where
  "Date_toISOString engine s =
     (if date_only s then Inr (s @ ''T00:00:00.000Z'') else engine s)"

section \<open>The handlers\<close>

text \<open>
  Every handler runs to its end before the next one starts: an \<^verbatim>\<open>await\<close> is the request
  and its answer in one step, and the \<^verbatim>\<open>fetchTodos()\<close> a handler ends with, which the
  source does not await, is run to its end as well. The caller the store sees is the user
  of the tracked session.
\<close>

definition caller :: "'db world \<Rightarrow> string option" where
  "caller w = map_option session_user_id (session w)"

definition await :: "'db server \<Rightarrow> request \<Rightarrow> 'db world \<Rightarrow> response \<times> 'db world" where
  "await serve q w =
     (let (resp, db') = serve (db w) (caller w) q
      in (resp, w\<lparr>db := db', calls := calls w @ [q]\<rparr>))"

text \<open>\<^verbatim>\<open>fetchTodos\<close>; \<^verbatim>\<open>data || []\<close> is the empty list when \<^verbatim>\<open>data\<close> is null.\<close>

definition fetchTodos :: "'db server \<Rightarrow> 'db world \<Rightarrow> 'db world" where
  "fetchTodos serve w =
     (let w1 = w\<lparr>error := None\<rparr>;
          (resp, w2) = await serve Select_ordered w1
      in case error_message resp of
           Some m \<Rightarrow> w2\<lparr>error := Some m\<rparr>
         | None \<Rightarrow> w2\<lparr>todos := (case data resp of Some d \<Rightarrow> d | None \<Rightarrow> [])\<rparr>)"

text \<open>\<^verbatim>\<open>resetForm\<close>.\<close>

definition resetForm :: "'db world \<Rightarrow> 'db world" where
  "resetForm w = w\<lparr>title_draft := [], description_draft := [], dueDate := [], editingId := None\<rparr>"

text \<open>
  A handler either returns or throws; what it had written to the state before throwing
  stays written.
\<close>

datatype 'db outcome = Returned "'db world" | Threw js_error "'db world"

text \<open>The state a handler leaves behind, however it ended.\<close>

fun state_after :: "'db outcome \<Rightarrow> 'db world" where
  "state_after (Returned w) = w"
| "state_after (Threw e w) = w"

text \<open>
  The constant \<^verbatim>\<open>payload\<close> of \<^verbatim>\<open>handleSubmitTodo\<close>. \<^verbatim>\<open>x || null\<close> is null for the empty
  string, and \<^verbatim>\<open>dueDate ? _ : null\<close> converts every non-empty draft; the conversion may
  throw.
\<close>

definition payload_of ::
    "(string \<Rightarrow> js_error + string) \<Rightarrow> session \<Rightarrow> 'db world \<Rightarrow> js_error + payload" where
  "payload_of engine sess w =
     (case (if dueDate w \<noteq> [] then map_sum id Some (Date_toISOString engine (dueDate w))
            else Inr None) of
        Inl e \<Rightarrow> Inl e
      | Inr d \<Rightarrow>
          Inr \<lparr>title = trim (title_draft w),
               description = (if trim (description_draft w) \<noteq> []
                              then Some (trim (description_draft w)) else None),
               due_date = d,
               user_id = session_user_id sess\<rparr>)"

text \<open>
  The request \<^verbatim>\<open>handleSubmitTodo\<close> sends: \<^verbatim>\<open>if (editingId)\<close> fails for null and for the
  empty string.
\<close>

definition submit_request :: "payload \<Rightarrow> 'db world \<Rightarrow> request" where
  "submit_request p w =
     (case editingId w of
        None \<Rightarrow> Insert p
      | Some i \<Rightarrow> if i \<noteq> [] then Update_payload p i else Insert p)"

text \<open>
  \<^verbatim>\<open>handleSubmitTodo\<close>. The payload is built before the title is checked, so a due date
  that cannot be converted throws first.
\<close>

definition handleSubmitTodo ::
    "(string \<Rightarrow> js_error + string) \<Rightarrow> 'db server \<Rightarrow> 'db world \<Rightarrow> 'db outcome" where
  "handleSubmitTodo engine serve w =
     (case session w of
        None \<Rightarrow> Returned w
      | Some sess \<Rightarrow>
          (let w1 = w\<lparr>error := None\<rparr>
           in case payload_of engine sess w1 of
                Inl e \<Rightarrow> Threw e w1
              | Inr p \<Rightarrow>
                  if title p = [] then Returned (w1\<lparr>error := Some ''Title is required''\<rparr>)
                  else
                    (let (resp, w2) = await serve (submit_request p w1) w1
                     in case error_message resp of
                          Some m \<Rightarrow> Returned (w2\<lparr>error := Some m\<rparr>)
                        | None \<Rightarrow> Returned (fetchTodos serve (resetForm w2)))))"

text \<open>\<^verbatim>\<open>startEdit\<close>; \<^verbatim>\<open>todo.description || ''\<close> and the test \<^verbatim>\<open>todo.due_date ? _ : _\<close>.\<close>

definition startEdit :: "todo \<Rightarrow> 'db world \<Rightarrow> 'db world" where
  "startEdit t w =
     w\<lparr>editingId := Some (id_todo t),
       title_draft := title t,
       description_draft := (case description t of Some d \<Rightarrow> d | None \<Rightarrow> []),
       dueDate := (case due_date t of
                     Some d \<Rightarrow> if d \<noteq> [] then slice_0_10 d else []
                   | None \<Rightarrow> [])\<rparr>"

text \<open>\<^verbatim>\<open>toggleComplete\<close>.\<close>

definition toggleComplete :: "'db server \<Rightarrow> todo \<Rightarrow> 'db world \<Rightarrow> 'db world" where
  "toggleComplete serve t w =
     (let (resp, w1) = await serve (Update_completed (\<not> completed t) (id_todo t)) w
      in case error_message resp of
           Some m \<Rightarrow> w1\<lparr>error := Some m\<rparr>
         | None \<Rightarrow> fetchTodos serve w1)"

text \<open>\<^verbatim>\<open>deleteTodo\<close>.\<close>

definition deleteTodo :: "'db server \<Rightarrow> string \<Rightarrow> 'db world \<Rightarrow> 'db world" where
  "deleteTodo serve i w =
     (let (resp, w1) = await serve (Delete i) w
      in case error_message resp of
           Some m \<Rightarrow> w1\<lparr>error := Some m\<rparr>
         | None \<Rightarrow> fetchTodos serve w1)"

text \<open>
  The effect on \<^verbatim>\<open>[session]\<close>, and the listener registered with \<^verbatim>\<open>onAuthStateChange\<close>: it
  stores the new session, and the effect runs when the stored value changed. Every
  session the auth client hands over is a new object, so only null after null is no
  change.
\<close>

definition session_effect :: "'db server \<Rightarrow> 'db world \<Rightarrow> 'db world" where
  "session_effect serve w =
     (if session w \<noteq> None then fetchTodos serve w else w\<lparr>todos := []\<rparr>)"

definition onAuthStateChange :: "'db server \<Rightarrow> session option \<Rightarrow> 'db world \<Rightarrow> 'db world" where
  "onAuthStateChange serve newSession w =
     (let w1 = w\<lparr>session := newSession\<rparr>
      in if session w = None \<and> newSession = None then w1 else session_effect serve w1)"

text \<open>
  The first effect: when \<^verbatim>\<open>getSession()\<close> resolves, its session is stored and \<^verbatim>\<open>loading\<close>
  ends; the effect on \<^verbatim>\<open>[session]\<close> follows when the stored value changed.
\<close>

definition getSession_resolved :: "'db server \<Rightarrow> session option \<Rightarrow> 'db world \<Rightarrow> 'db world" where
  "getSession_resolved serve s w = onAuthStateChange serve s (w\<lparr>loading := False\<rparr>)"

section \<open>The view\<close>

text \<open>
  The controls of the rendered page that are bound to the handlers above: the task form,
  its Cancel button, the three filter buttons and, for each task of the filtered view,
  its checkbox and its Edit and Delete buttons.
\<close>

datatype control =
    Todo_form
  | Cancel_button
  | Filter_button Filter
  | Checkbox todo
  | Edit_button todo
  | Delete_button todo

text \<open>
  What the component returns: nothing but a notice while \<^verbatim>\<open>loading\<close>; without a session
  the login card only; with a session the form (Cancel when \<^verbatim>\<open>editingId\<close> is set), the
  filters and the list.
\<close>

definition rendered :: "'db world \<Rightarrow> control \<Rightarrow> bool" where
  "rendered w c =
     (\<not> loading w \<and> session w \<noteq> None \<and>
      (case c of
         Todo_form \<Rightarrow> True
       | Cancel_button \<Rightarrow> (case editingId w of None \<Rightarrow> False | Some i \<Rightarrow> i \<noteq> [])
       | Filter_button f \<Rightarrow> True
       | Checkbox t \<Rightarrow> t \<in> set (filteredTodos (todos w) (filter_sel w))
       | Edit_button t \<Rightarrow> t \<in> set (filteredTodos (todos w) (filter_sel w))
       | Delete_button t \<Rightarrow> t \<in> set (filteredTodos (todos w) (filter_sel w))))"

text \<open>The handler bound to each control.\<close>

definition handler ::
    "(string \<Rightarrow> js_error + string) \<Rightarrow> 'db server \<Rightarrow> control \<Rightarrow> 'db world \<Rightarrow> 'db outcome" where
  "handler engine serve c w =
     (case c of
        Todo_form \<Rightarrow> handleSubmitTodo engine serve w
      | Cancel_button \<Rightarrow> Returned (resetForm w)
      | Filter_button f \<Rightarrow> Returned (w\<lparr>filter_sel := f\<rparr>)
      | Checkbox t \<Rightarrow> Returned (toggleComplete serve t w)
      | Edit_button t \<Rightarrow> Returned (startEdit t w)
      | Delete_button t \<Rightarrow> Returned (deleteTodo serve (id_todo t) w))"

text \<open>
  Operating a control runs its handler; a control that is not on the page cannot be
  operated.
\<close>

definition operate ::
    "(string \<Rightarrow> js_error + string) \<Rightarrow> 'db server \<Rightarrow> control \<Rightarrow> 'db world \<Rightarrow> 'db outcome option" where
  "operate engine serve c w = (if rendered w c then Some (handler engine serve c w) else None)"

section \<open>The store\<close>

text \<open>
  Modelled from the spec: the remote store behind \<^verbatim>\<open>supabase.from('todos')\<close>, a relational
  table served over the network, which is not among the sources. The spec's store contract
  gives a table \<^verbatim>\<open>todos\<close> whose rows a caller may select, insert, update and delete only
  where the owner is the caller, with \<^verbatim>\<open>id\<close> generated on insert and \<^verbatim>\<open>updated_at\<close> stamped
  by the store, and a fetch ordered by creation time, descending. The column defaults, the
  trigger \<^verbatim>\<open>set_updated_at\<close> and the four row policies are those of the SQL that comes with
  the source.

  A store state holds the rows, the store's clock \<open>now\<close>, the identifiers its generator
  hands out (\<open>gen_random_uuid\<close>, the \<open>inserted\<close>-th next) and \<open>faults\<close>: for each coming
  request, whether it fails before reaching the table (transport or service failure) and
  with which message; past the end of the list no request fails that way.
\<close>

record store =
  rows :: "todo list"
  now :: timestamp
  faults :: "string option list"
  gen_random_uuid :: "nat \<Rightarrow> string"
  inserted :: nat

text \<open>The policies' condition \<^verbatim>\<open>auth.uid() = user_id\<close>.\<close>

definition owned :: "string option \<Rightarrow> 'a payload_scheme \<Rightarrow> bool" where
  "owned c r = (c = Some (user_id r))"

text \<open>\<^verbatim>\<open>order by created_at desc\<close>.\<close>

definition order_created_at_desc :: "todo list \<Rightarrow> todo list" where
  "order_created_at_desc rs = rev (sort_key created_at rs)"

definition ok :: "todo list option \<Rightarrow> response" where
  "ok d = \<lparr>data = d, error_message = None\<rparr>"

definition failed :: "string \<Rightarrow> response" where
  "failed m = \<lparr>data = None, error_message = Some m\<rparr>"

text \<open>The trigger \<^verbatim>\<open>set_updated_at\<close>, run before every update of a row.\<close>

definition set_updated_at :: "store \<Rightarrow> todo \<Rightarrow> todo" where
  "set_updated_at st r = r\<lparr>updated_at := now st\<rparr>"

text \<open>
  Modelled from the spec: one statement on the table \<^verbatim>\<open>todos\<close>, by the store contract and
  the SQL of the source. An insert or update whose new row is not the caller's is refused
  by the policy's check; a statement that matches no visible row succeeds and changes
  nothing; a mutation answers with no data.
\<close>

fun pg_exec :: "store \<Rightarrow> string option \<Rightarrow> request \<Rightarrow> response \<times> store" where
  "pg_exec st c Select_ordered =
     (ok (Some (order_created_at_desc (filter (owned c) (rows st)))), st)"
| "pg_exec st c (Insert p) =
     (let i = gen_random_uuid st (inserted st);
          st1 = st\<lparr>inserted := Suc (inserted st)\<rparr>
      in if \<not> owned c p
         then (failed ''new row violates row-level security policy for table todos'', st1)
         else if i \<in> set (map id_todo (rows st))
         then (failed ''duplicate key value violates unique constraint todos_pkey'', st1)
         else (ok None,
               st1\<lparr>rows := rows st @
                  [\<lparr>title = title p, description = description p, due_date = due_date p,
                    user_id = user_id p, id_todo = i, completed = False,
                    created_at = now st, updated_at = now st\<rparr>]\<rparr>))"
| "pg_exec st c (Update_payload p i) =
     (if (\<exists>r \<in> set (rows st). id_todo r = i \<and> owned c r) \<and> \<not> owned c p
      then (failed ''new row violates row-level security policy for table todos'', st)
      else (ok None,
            st\<lparr>rows := map (\<lambda>r. if id_todo r = i \<and> owned c r
                                  then set_updated_at st
                                         (r\<lparr>title := title p, description := description p,
                                            due_date := due_date p, user_id := user_id p\<rparr>)
                                  else r) (rows st)\<rparr>))"
| "pg_exec st c (Update_completed b i) =
     (ok None,
      st\<lparr>rows := map (\<lambda>r. if id_todo r = i \<and> owned c r
                            then set_updated_at st (r\<lparr>completed := b\<rparr>)
                            else r) (rows st)\<rparr>)"
| "pg_exec st c (Delete i) =
     (ok None, st\<lparr>rows := filter (\<lambda>r. \<not> (id_todo r = i \<and> owned c r)) (rows st)\<rparr>)"

text \<open>
  Modelled from the spec: the store as a server. The next entry of \<open>faults\<close> decides
  whether the request fails before it reaches the table.
\<close>

definition pg_serve :: "store server" where
  "pg_serve st c q =
     (case faults st of
        Some m # fs \<Rightarrow> (failed m, st\<lparr>faults := fs\<rparr>)
      | _ \<Rightarrow> pg_exec (st\<lparr>faults := tl (faults st)\<rparr>) c q)"

section \<open>Ordering of a fetched collection\<close>

text \<open>A collection is sorted by creation time, newest first.\<close>

definition created_desc :: "todo list \<Rightarrow> bool" where
  "created_desc ts = sorted_wrt (\<lambda>a b. created_at b \<le> created_at a) ts"

section \<open>Sample states\<close>

text \<open>
  Two rows of user \<open>u1\<close>, the older one open with a due time in the afternoon, and a store
  holding them whose clock has moved on.
\<close>

definition row_a :: todo where
  "row_a = \<lparr>title = ''A'', description = None, due_date = Some ''2024-05-01T12:30:00+00:00'',
            user_id = ''u1'', id_todo = ''a'', completed = False, created_at = 1, updated_at = 1\<rparr>"

definition row_b :: todo where
  "row_b = \<lparr>title = ''B'', description = Some ''b'', due_date = None,
            user_id = ''u1'', id_todo = ''b'', completed = True, created_at = 2, updated_at = 2\<rparr>"

definition store0 :: store where
  "store0 = \<lparr>rows = [row_a, row_b], now = 5, faults = [],
             gen_random_uuid = (\<lambda>n. replicate (Suc n) CHR ''x''), inserted = 0\<rparr>"

text \<open>The component of user \<open>u1\<close> after a fetch, with an idle form.\<close>

definition world0 :: "store world" where
  "world0 = \<lparr>session = Some (Session ''u1''), loading = False, todos = [row_b, row_a],
             error = None,
             title_draft = [], description_draft = [], dueDate = [], editingId = None,
             filter_sel = All, db = store0, calls = []\<rparr>"

text \<open>The same state with no session.\<close>

definition world_anon :: "store world" where
  "world_anon = world0\<lparr>session := None\<rparr>"

text \<open>
  A filled-in form, an error left from earlier, and a store whose next request fails.
\<close>

definition world_down :: "store world" where
  "world_down = world0\<lparr>error := Some ''earlier'', title_draft := '' Buy milk '',
                       dueDate := ''2024-01-31'',
                       db := store0\<lparr>faults := [Some ''Failed to fetch'']\<rparr>\<rparr>"

definition payload_milk :: payload where
  "payload_milk = \<lparr>title = ''Buy milk'', description = None,
                   due_date = Some ''2024-01-31T00:00:00.000Z'', user_id = ''u1''\<rparr>"

text \<open>Row \<open>a\<close> being edited, its title replaced by a space, a tab and a no-break space.\<close>

definition world_blank :: "store world" where
  "world_blank = world0\<lparr>title_draft := [CHR '' '', CHR 0x09, CHR 0xA0], editingId := Some ''a''\<rparr>"

text \<open>The same blank title, with a due date draft that is no date.\<close>

definition world_no_date :: "store world" where
  "world_no_date = world_blank\<lparr>dueDate := ''abc''\<rparr>"

text \<open>Row \<open>a\<close> being edited, with a new title.\<close>

definition world_edit :: "store world" where
  "world_edit = world0\<lparr>title_draft := ''A2'', editingId := Some ''a''\<rparr>"

definition payload_a2 :: payload where
  "payload_a2 = \<lparr>title = ''A2'', description = None, due_date = None, user_id = ''u1''\<rparr>"

text \<open>The state after that edit has been saved and the tasks fetched again.\<close>

definition world_saved :: "store world" where
  "world_saved =
     fetchTodos pg_serve (resetForm
       (world_edit\<lparr>error := None,
                   db := snd (pg_serve (db world_edit) (caller world_edit)
                                (Update_payload payload_a2 ''a'')),
                   calls := calls world_edit @ [Update_payload payload_a2 ''a'']\<rparr>))"

text \<open>An engine that converts nothing but the date-only form.\<close>

definition strict_engine :: "string \<Rightarrow> js_error + string" where
  "strict_engine s = Inl RangeError"

section \<open>Basic facts about the handlers\<close>

lemma caller_upd [simp]:
  "caller (w\<lparr>error := e\<rparr>) = caller w"
  "caller (w\<lparr>todos := ts\<rparr>) = caller w"
  "caller (w\<lparr>db := d\<rparr>) = caller w"
  "caller (w\<lparr>calls := cs\<rparr>) = caller w"
  by (simp_all add: caller_def)

lemma await_eq:
  "await serve q w =
     (fst (serve (db w) (caller w) q),
      w\<lparr>db := snd (serve (db w) (caller w) q), calls := calls w @ [q]\<rparr>)"
  by (simp add: await_def split_def Let_def)

lemma fetchTodos_fail:
  assumes "error_message (fst (serve (db w) (caller w) Select_ordered)) = Some m"
  shows "fetchTodos serve w =
           w\<lparr>error := Some m, db := snd (serve (db w) (caller w) Select_ordered),
             calls := calls w @ [Select_ordered]\<rparr>"
  using assms by (simp add: fetchTodos_def await_eq)

lemma fetchTodos_ok:
  assumes "error_message (fst (serve (db w) (caller w) Select_ordered)) = None"
  shows "fetchTodos serve w =
           w\<lparr>error := None, db := snd (serve (db w) (caller w) Select_ordered),
             calls := calls w @ [Select_ordered],
             todos := (case data (fst (serve (db w) (caller w) Select_ordered)) of
                         Some d \<Rightarrow> d | None \<Rightarrow> [])\<rparr>"
  using assms by (simp add: fetchTodos_def await_eq)

lemma calls_fetchTodos: "calls (fetchTodos serve w) = calls w @ [Select_ordered]"
  by (cases "error_message (fst (serve (db w) (caller w) Select_ordered))")
     (simp_all add: fetchTodos_ok fetchTodos_fail)

lemma toggleComplete_fail:
  assumes "error_message (fst (serve (db w) (caller w)
             (Update_completed (\<not> completed t) (id_todo t)))) = Some m"
  shows "toggleComplete serve t w =
           w\<lparr>db := snd (serve (db w) (caller w)
                          (Update_completed (\<not> completed t) (id_todo t))),
             calls := calls w @ [Update_completed (\<not> completed t) (id_todo t)],
             error := Some m\<rparr>"
  using assms by (simp add: toggleComplete_def await_eq)

lemma toggleComplete_ok:
  assumes "error_message (fst (serve (db w) (caller w)
             (Update_completed (\<not> completed t) (id_todo t)))) = None"
  shows "toggleComplete serve t w =
           fetchTodos serve
             (w\<lparr>db := snd (serve (db w) (caller w)
                             (Update_completed (\<not> completed t) (id_todo t))),
                calls := calls w @ [Update_completed (\<not> completed t) (id_todo t)]\<rparr>)"
  using assms by (simp add: toggleComplete_def await_eq)

lemma deleteTodo_fail:
  assumes "error_message (fst (serve (db w) (caller w) (Delete i))) = Some m"
  shows "deleteTodo serve i w =
           w\<lparr>db := snd (serve (db w) (caller w) (Delete i)),
             calls := calls w @ [Delete i], error := Some m\<rparr>"
  using assms by (simp add: deleteTodo_def await_eq)

lemma deleteTodo_ok:
  assumes "error_message (fst (serve (db w) (caller w) (Delete i))) = None"
  shows "deleteTodo serve i w =
           fetchTodos serve
             (w\<lparr>db := snd (serve (db w) (caller w) (Delete i)), calls := calls w @ [Delete i]\<rparr>)"
  using assms by (simp add: deleteTodo_def await_eq)

lemma payload_of_error_upd [simp]:
  "payload_of engine sess (w\<lparr>error := e\<rparr>) = payload_of engine sess w"
  by (simp add: payload_of_def split: sum.split)

lemma submit_request_error_upd [simp]:
  "submit_request p (w\<lparr>error := e\<rparr>) = submit_request p w"
  by (simp add: submit_request_def)

lemma handleSubmitTodo_fail:
  assumes "session w = Some sess" "payload_of engine sess w = Inr p" "title p \<noteq> []"
    and "error_message (fst (serve (db w) (caller w) (submit_request p w))) = Some m"
  shows "handleSubmitTodo engine serve w =
           Returned (w\<lparr>db := snd (serve (db w) (caller w) (submit_request p w)),
                       calls := calls w @ [submit_request p w], error := Some m\<rparr>)"
  using assms by (simp add: handleSubmitTodo_def await_eq)

lemma handleSubmitTodo_ok:
  assumes "session w = Some sess" "payload_of engine sess w = Inr p" "title p \<noteq> []"
    and "error_message (fst (serve (db w) (caller w) (submit_request p w))) = None"
  shows "handleSubmitTodo engine serve w =
           Returned (fetchTodos serve (resetForm
             (w\<lparr>error := None, db := snd (serve (db w) (caller w) (submit_request p w)),
                calls := calls w @ [submit_request p w]\<rparr>)))"
  using assms by (simp add: handleSubmitTodo_def await_eq)

lemma handleSubmitTodo_calls:
  assumes "session w = Some sess" "payload_of engine sess w = Inr p" "title p \<noteq> []"
  shows "\<exists>w'. handleSubmitTodo engine serve w = Returned w' \<and>
              prefix (calls w @ [submit_request p w]) (calls w')"
proof (cases "error_message (fst (serve (db w) (caller w) (submit_request p w)))")
  case None
  then show ?thesis
    using assms by (simp add: handleSubmitTodo_ok calls_fetchTodos resetForm_def)
next
  case (Some m)
  then show ?thesis
    using assms by (simp add: handleSubmitTodo_fail)
qed

text \<open>A title trims to the empty string exactly when it consists of white space.\<close>

lemma trim_empty_iff: "trim s = [] \<longleftrightarrow> list_all is_space s"
proof -
  have "trim s = [] \<longleftrightarrow> (\<forall>c \<in> set (dropWhile is_space s). is_space c)"
    by (simp add: trim_def dropWhile_eq_Nil_conv)
  also have "\<dots> \<longleftrightarrow> dropWhile is_space (dropWhile is_space s) = []"
    by (simp only: dropWhile_eq_Nil_conv)
  also have "\<dots> \<longleftrightarrow> dropWhile is_space s = []"
    by (simp only: dropWhile_idem)
  also have "\<dots> \<longleftrightarrow> list_all is_space s"
    by (simp add: dropWhile_eq_Nil_conv list_all_iff)
  finally show ?thesis .
qed

text \<open>The payload when the draft due date is empty or can be converted.\<close>

lemma payload_of_convertible:
  assumes "dueDate w = [] \<or> \<not> isl (Date_toISOString engine (dueDate w))"
  shows "payload_of engine sess w =
           Inr \<lparr>title = trim (title_draft w),
                description = (if trim (description_draft w) \<noteq> []
                               then Some (trim (description_draft w)) else None),
                due_date = (if dueDate w \<noteq> []
                            then Some (projr (Date_toISOString engine (dueDate w))) else None),
                user_id = session_user_id sess\<rparr>"
proof (cases "dueDate w = []")
  case True
  then show ?thesis by (simp add: payload_of_def)
next
  case False
  with assms obtain iso where "Date_toISOString engine (dueDate w) = Inr iso"
    by (cases "Date_toISOString engine (dueDate w)") auto
  with False show ?thesis by (simp add: payload_of_def)
qed

lemma payload_of_title:
  "payload_of engine sess w = Inr p \<Longrightarrow> title p = trim (title_draft w)"
  by (auto simp add: payload_of_def split: sum.splits if_splits)


section \<open>Facts about the store\<close>

lemma created_desc_order: "created_desc (order_created_at_desc rs)"
proof -
  have "sorted (map created_at (sort_key created_at rs))"
    by (rule sorted_sort_key)
  then have "sorted_wrt (\<lambda>a b. created_at a \<le> created_at b) (sort_key created_at rs)"
    by (simp add: sorted_map)
  then show ?thesis
    by (simp add: created_desc_def order_created_at_desc_def sorted_wrt_rev)
qed

lemma set_order_created_at_desc [simp]: "set (order_created_at_desc rs) = set rs"
  by (simp add: order_created_at_desc_def)

lemma pg_serve_no_fault:
  assumes "error_message (fst (pg_serve st c q)) = None"
  shows "pg_serve st c q = pg_exec (st\<lparr>faults := tl (faults st)\<rparr>) c q"
proof (cases "faults st")
  case Nil
  then show ?thesis by (simp add: pg_serve_def)
next
  case (Cons f fs)
  with assms show ?thesis
    by (cases f) (simp_all add: pg_serve_def failed_def)
qed

text \<open>A fetch that leaves no error has stored the caller's rows, newest first.\<close>

lemma fetchTodos_error_None:
  assumes "error (fetchTodos pg_serve w) = None"
  shows "todos (fetchTodos pg_serve w) =
           order_created_at_desc (filter (owned (caller w)) (rows (db w)))"
proof (cases "error_message (fst (pg_serve (db w) (caller w) Select_ordered))")
  case None
  from pg_serve_no_fault [OF None] fetchTodos_ok [where serve = pg_serve, OF None]
  show ?thesis by (simp add: ok_def)
next
  case (Some m)
  from fetchTodos_fail [where serve = pg_serve, OF Some] assms show ?thesis by simp
qed

lemma created_desc_fetchTodos:
  "error (fetchTodos pg_serve w) = None \<Longrightarrow> created_desc (todos (fetchTodos pg_serve w))"
  by (simp add: fetchTodos_error_None created_desc_order)

lemma toggleComplete_error_None:
  assumes "error (toggleComplete pg_serve t w) = None"
  shows "todos (toggleComplete pg_serve t w) =
           order_created_at_desc (filter (owned (caller w))
             (map (\<lambda>r. if id_todo r = id_todo t \<and> owned (caller w) r
                        then r\<lparr>completed := \<not> completed t, updated_at := now (db w)\<rparr>
                        else r) (rows (db w))))"
proof (cases "error_message (fst (pg_serve (db w) (caller w)
                (Update_completed (\<not> completed t) (id_todo t))))")
  case None
  let ?w1 = "w\<lparr>db := snd (pg_serve (db w) (caller w)
                        (Update_completed (\<not> completed t) (id_todo t))),
               calls := calls w @ [Update_completed (\<not> completed t) (id_todo t)]\<rparr>"
  have eq: "toggleComplete pg_serve t w = fetchTodos pg_serve ?w1"
    by (rule toggleComplete_ok [where serve = pg_serve, OF None])
  with assms have "error (fetchTodos pg_serve ?w1) = None" by simp
  from fetchTodos_error_None [OF this] eq pg_serve_no_fault [OF None]
  show ?thesis by (simp add: set_updated_at_def cong: if_cong)
next
  case (Some m)
  from toggleComplete_fail [where serve = pg_serve, OF Some] assms show ?thesis by simp
qed

section \<open>The claims\<close>

subsection \<open>C1: the session requirement\<close>

text \<open>
  C1, as amended. Create and update check the session themselves: without a session
  \<^verbatim>\<open>handleSubmitTodo\<close> returns, without throwing, the state and the store untouched and no
  request sent. Toggling and removing have no check of their own; without a session none
  of the page's controls is rendered, so neither can be invoked from the page. And the
  session effect without a session starts no fetch: it only empties the collection.
\<close>

theorem session_guard:
  "session w = None \<longrightarrow>
     handleSubmitTodo engine serve w = Returned w \<and>
     operate engine serve c w = None \<and>
     session_effect serve w = w\<lparr>todos := []\<rparr>"
  by (simp add: handleSubmitTodo_def operate_def rendered_def session_effect_def)

text \<open>The amended statement at the state without a session, for the checkbox of row \<open>a\<close>.\<close>

theorem session_guard_witness:
  "session world_anon = None \<and>
   handleSubmitTodo strict_engine pg_serve world_anon = Returned world_anon \<and>
   operate strict_engine pg_serve (Checkbox row_a) world_anon = None \<and>
   session_effect pg_serve world_anon = world_anon\<lparr>todos := []\<rparr>"
proof -
  have h: "session world_anon = None" by code_simp
  from session_guard [of world_anon strict_engine pg_serve "Checkbox row_a"] h
  show ?thesis by simp
qed

text \<open>
  Called without a session, \<^verbatim>\<open>toggleComplete\<close>, \<^verbatim>\<open>deleteTodo\<close> and \<^verbatim>\<open>fetchTodos\<close> each
  send their request to the store all the same.
\<close>

theorem session_guard_counterexample:
  "session world_anon = None \<and> calls world_anon = [] \<and>
   calls (toggleComplete pg_serve row_a world_anon) =
     [Update_completed True ''a'', Select_ordered] \<and>
   calls (deleteTodo pg_serve ''a'' world_anon) = [Delete ''a'', Select_ordered] \<and>
   calls (fetchTodos pg_serve world_anon) = [Select_ordered]"
  by code_simp

subsection \<open>C2: a failed mutation\<close>

text \<open>
  C2. When the store reports a failure of a mutation (the update of \<^verbatim>\<open>toggleComplete\<close>, the
  delete of \<^verbatim>\<open>deleteTodo\<close>, the insert or update of \<^verbatim>\<open>handleSubmitTodo\<close>), the handler
  records that message as the current error, whatever the error was before, and stops:
  the failed request is the only one it has sent, so it is not sent again and no fetch
  follows; the collection, and for a submit the form, stay as they were.
\<close>

theorem mutation_failure_aborts:
  "(error_message (fst (serve (db w) (caller w)
       (Update_completed (\<not> completed t) (id_todo t)))) = Some m \<longrightarrow>
      error (toggleComplete serve t w) = Some m \<and>
      calls (toggleComplete serve t w) =
        calls w @ [Update_completed (\<not> completed t) (id_todo t)] \<and>
      todos (toggleComplete serve t w) = todos w) \<and>
   (error_message (fst (serve (db w) (caller w) (Delete i))) = Some m \<longrightarrow>
      error (deleteTodo serve i w) = Some m \<and>
      calls (deleteTodo serve i w) = calls w @ [Delete i] \<and>
      todos (deleteTodo serve i w) = todos w) \<and>
   (session w = Some sess \<and> payload_of engine sess w = Inr p \<and> title p \<noteq> [] \<and>
    error_message (fst (serve (db w) (caller w) (submit_request p w))) = Some m \<longrightarrow>
      (\<exists>w'. handleSubmitTodo engine serve w = Returned w' \<and>
            error w' = Some m \<and>
            calls w' = calls w @ [submit_request p w] \<and>
            todos w' = todos w \<and>
            title_draft w' = title_draft w \<and> description_draft w' = description_draft w \<and>
            dueDate w' = dueDate w \<and> editingId w' = editingId w))"
  by (simp add: toggleComplete_fail deleteTodo_fail handleSubmitTodo_fail)

text \<open>The three handlers against a store whose next request fails, an earlier error set.\<close>

theorem mutation_failure_aborts_witness:
  "error_message (fst (pg_serve (db world_down) (caller world_down)
      (Update_completed (\<not> completed row_a) (id_todo row_a)))) = Some ''Failed to fetch'' \<and>
   error_message (fst (pg_serve (db world_down) (caller world_down) (Delete ''a''))) =
     Some ''Failed to fetch'' \<and>
   session world_down = Some (Session ''u1'') \<and>
   payload_of strict_engine (Session ''u1'') world_down = Inr payload_milk \<and>
   title payload_milk \<noteq> [] \<and>
   submit_request payload_milk world_down = Insert payload_milk \<and>
   error_message (fst (pg_serve (db world_down) (caller world_down)
      (submit_request payload_milk world_down))) = Some ''Failed to fetch'' \<and>
   error world_down = Some ''earlier'' \<and>
   error (toggleComplete pg_serve row_a world_down) = Some ''Failed to fetch'' \<and>
   calls (toggleComplete pg_serve row_a world_down) = [Update_completed True ''a''] \<and>
   error (deleteTodo pg_serve ''a'' world_down) = Some ''Failed to fetch'' \<and>
   calls (deleteTodo pg_serve ''a'' world_down) = [Delete ''a''] \<and>
   (\<exists>w'. handleSubmitTodo strict_engine pg_serve world_down = Returned w' \<and>
         error w' = Some ''Failed to fetch'' \<and> calls w' = [Insert payload_milk] \<and>
         todos w' = [row_b, row_a])"
proof -
  have h1: "error_message (fst (pg_serve (db world_down) (caller world_down)
      (Update_completed (\<not> completed row_a) (id_todo row_a)))) = Some ''Failed to fetch''"
    by code_simp
  have h2: "error_message (fst (pg_serve (db world_down) (caller world_down) (Delete ''a''))) =
      Some ''Failed to fetch''"
    by code_simp
  have h3: "session world_down = Some (Session ''u1'')"
    by code_simp
  have h4: "payload_of strict_engine (Session ''u1'') world_down = Inr payload_milk"
    by code_simp
  have h5: "title payload_milk \<noteq> []"
    by code_simp
  have h6: "submit_request payload_milk world_down = Insert payload_milk"
    by code_simp
  have h7: "error_message (fst (pg_serve (db world_down) (caller world_down)
      (submit_request payload_milk world_down))) = Some ''Failed to fetch''"
    by code_simp
  have c: "calls world_down = []" "todos world_down = [row_b, row_a]"
    "completed row_a = False" "id_todo row_a = ''a''" "error world_down = Some ''earlier''"
    by (simp_all add: world_down_def world0_def row_a_def)
  from mutation_failure_aborts [of pg_serve world_down row_a "''Failed to fetch''" "''a''"
      "Session ''u1''" strict_engine payload_milk]
    h1 h2 h3 h4 h5 h6 h7 c
  show ?thesis by auto
qed

subsection \<open>C3: the filter\<close>

text \<open>
  C3. For every collection, the filter \<open>Active\<close> yields exactly the tasks that are not
  completed, \<open>Completed\<close> exactly the completed ones and \<open>All\<close> the whole collection, and
  for every selection the result keeps the order of the collection. The view is a
  function of the collection and the selection alone: it has no access to the store.
\<close>

theorem filteredTodos_spec:
  "filteredTodos ts Active = filter (\<lambda>t. completed t = False) ts \<and>
   filteredTodos ts Completed = filter (\<lambda>t. completed t = True) ts \<and>
   filteredTodos ts All = ts \<and>
   subseq (filteredTodos ts f) ts"
  by (simp add: filteredTodos_def)

subsection \<open>C4: a failed fetch\<close>

text \<open>
  C4. When the store reports a failure of the fetch, \<^verbatim>\<open>fetchTodos\<close> records the store's
  message as the error and leaves the collection held so far exactly as it was.
\<close>

theorem fetchTodos_failure:
  assumes "error_message (fst (serve (db w) (caller w) Select_ordered)) = Some m"
  shows "todos (fetchTodos serve w) = todos w \<and> error (fetchTodos serve w) = Some m"
  using assms by (simp add: fetchTodos_fail)

theorem fetchTodos_failure_witness:
  "error_message (fst (pg_serve (db world_down) (caller world_down) Select_ordered)) =
     Some ''Failed to fetch'' \<and>
   todos (fetchTodos pg_serve world_down) = [row_b, row_a] \<and>
   error (fetchTodos pg_serve world_down) = Some ''Failed to fetch''"
proof -
  have h: "error_message (fst (pg_serve (db world_down) (caller world_down) Select_ordered)) =
      Some ''Failed to fetch''"
    by code_simp
  have t: "todos world_down = [row_b, row_a]"
    by (simp add: world_down_def world0_def)
  from fetchTodos_failure [where serve = pg_serve, OF h] h t show ?thesis by simp
qed

subsection \<open>C5: toggling a task\<close>

text \<open>
  C5, as amended. Let the session's user own a row of the store with the id of task \<open>t\<close>,
  and let \<^verbatim>\<open>toggleComplete\<close> end without an error (its update and the fetch it ends with
  both succeeded). Then the fetched collection holds that row with \<open>completed\<close> set to the
  negation of \<open>t\<close>'s flag and \<open>updated_at\<close> set to the store's time of the update, every
  other field as the store had it; and when ids are unique in the table, this is the only
  fetched task with that id.
\<close>

theorem toggle_then_fetch:
  assumes "session w = Some sess"
    and "r \<in> set (rows (db w))" and "id_todo r = id_todo t"
    and "user_id r = session_user_id sess"
    and "error (toggleComplete pg_serve t w) = None"
  shows "r\<lparr>completed := \<not> completed t, updated_at := now (db w)\<rparr>
           \<in> set (todos (toggleComplete pg_serve t w)) \<and>
         (distinct (map id_todo (rows (db w))) \<longrightarrow>
            (\<forall>t' \<in> set (todos (toggleComplete pg_serve t w)).
               id_todo t' = id_todo t \<longrightarrow>
               t' = r\<lparr>completed := \<not> completed t, updated_at := now (db w)\<rparr>))"
proof -
  let ?c = "caller w"
  let ?upd = "\<lambda>r. if id_todo r = id_todo t \<and> owned ?c r
                   then r\<lparr>completed := \<not> completed t, updated_at := now (db w)\<rparr> else r"
  have own: "owned ?c r"
    using assms(1,4) by (simp add: owned_def caller_def)
  have ts: "set (todos (toggleComplete pg_serve t w)) =
              {x \<in> ?upd ` set (rows (db w)). owned ?c x}"
    by (simp add: toggleComplete_error_None [OF assms(5)])
  have ur: "?upd r = r\<lparr>completed := \<not> completed t, updated_at := now (db w)\<rparr>"
    using own assms(3) by simp
  have "owned ?c (?upd r)"
    using own by (simp add: owned_def)
  then have mem: "?upd r \<in> set (todos (toggleComplete pg_serve t w))"
    using assms(2) ts by blast
  have uniq: "t' = ?upd r"
    if d: "distinct (map id_todo (rows (db w)))"
      and t': "t' \<in> set (todos (toggleComplete pg_serve t w))" "id_todo t' = id_todo t"
    for t'
  proof -
    from t'(1) ts obtain r0 where r0: "r0 \<in> set (rows (db w))" "t' = ?upd r0"
      by blast
    have "id_todo (?upd r0) = id_todo r0" by simp
    with r0(2) t'(2) assms(3) have "id_todo r0 = id_todo r" by simp
    moreover from d have "inj_on id_todo (set (rows (db w)))"
      by (simp add: distinct_map)
    ultimately have "r0 = r"
      using r0(1) assms(2) by (auto dest: inj_onD)
    with r0(2) show ?thesis by simp
  qed
  from mem uniq ur show ?thesis by auto
qed

text \<open>Toggling the open row \<open>a\<close> at store time 5.\<close>

theorem toggle_then_fetch_witness:
  "session world0 = Some (Session ''u1'') \<and> row_a \<in> set (rows (db world0)) \<and>
   user_id row_a = session_user_id (Session ''u1'') \<and>
   error (toggleComplete pg_serve row_a world0) = None \<and>
   distinct (map id_todo (rows (db world0))) \<and>
   row_a\<lparr>completed := True, updated_at := 5\<rparr> \<in> set (todos (toggleComplete pg_serve row_a world0)) \<and>
   filter (\<lambda>t'. id_todo t' = ''a'') (todos (toggleComplete pg_serve row_a world0)) =
     [row_a\<lparr>completed := True, updated_at := 5\<rparr>]"
proof -
  have h1: "session world0 = Some (Session ''u1'')" by code_simp
  have h2: "row_a \<in> set (rows (db world0))" by code_simp
  have h3: "user_id row_a = session_user_id (Session ''u1'')" by code_simp
  have h4: "error (toggleComplete pg_serve row_a world0) = None" by code_simp
  have h5: "distinct (map id_todo (rows (db world0)))" by code_simp
  have c: "completed row_a = False" "id_todo row_a = ''a''" "now (db world0) = 5"
    by (simp_all add: world0_def store0_def row_a_def)
  have f: "filter (\<lambda>t'. id_todo t' = ''a'') (todos (toggleComplete pg_serve row_a world0)) =
             [row_a\<lparr>completed := True, updated_at := 5\<rparr>]"
    by code_simp
  from toggle_then_fetch [OF h1 h2 refl h3 h4] h1 h2 h3 h4 h5 c f
  show ?thesis by simp
qed

text \<open>
  The fetched task is not the old one with only the flag flipped: its \<open>updated_at\<close> has
  moved from 1 to the store's time 5.
\<close>

theorem toggle_then_fetch_counterexample:
  "todos (toggleComplete pg_serve row_a world0) =
     [row_b, row_a\<lparr>completed := True, updated_at := 5\<rparr>] \<and>
   updated_at row_a = 1 \<and>
   row_a\<lparr>completed := \<not> completed row_a\<rparr> \<notin> set (todos (toggleComplete pg_serve row_a world0))"
  by code_simp

subsection \<open>C6: an empty title\<close>

text \<open>
  C6, as amended. With a session, a submit whose title draft is empty or consists of white
  space only reaches the store neither in creating nor in editing mode: no request is
  sent, the store is as it was, and no state variable other than the error has changed.
  When moreover the due date draft is empty or one that converts, the submit ends with
  the error \<open>Title is required\<close>: the resulting state is the old one with that error.
\<close>

theorem empty_title_rejected_locally:
  assumes "session w = Some sess"
    and "list_all is_space (title_draft w)"
  shows "calls (state_after (handleSubmitTodo engine serve w)) = calls w \<and>
         db (state_after (handleSubmitTodo engine serve w)) = db w \<and>
         (state_after (handleSubmitTodo engine serve w))\<lparr>error := error w\<rparr> = w \<and>
         (dueDate w = [] \<or> \<not> isl (Date_toISOString engine (dueDate w)) \<longrightarrow>
            handleSubmitTodo engine serve w =
              Returned (w\<lparr>error := Some ''Title is required''\<rparr>))"
proof -
  have blank: "trim (title_draft w) = []"
    using assms(2) by (simp add: trim_empty_iff)
  have conv: "handleSubmitTodo engine serve w = Returned (w\<lparr>error := Some ''Title is required''\<rparr>)"
    if "dueDate w = [] \<or> \<not> isl (Date_toISOString engine (dueDate w))"
    using assms(1) blank payload_of_convertible [OF that, of sess]
    by (simp add: handleSubmitTodo_def)
  have frame: "calls (state_after (handleSubmitTodo engine serve w)) = calls w \<and>
               db (state_after (handleSubmitTodo engine serve w)) = db w \<and>
               (state_after (handleSubmitTodo engine serve w))\<lparr>error := error w\<rparr> = w"
  proof (cases "payload_of engine sess w")
    case (Inl e)
    with assms(1) have "handleSubmitTodo engine serve w = Threw e (w\<lparr>error := None\<rparr>)"
      by (simp add: handleSubmitTodo_def)
    then show ?thesis by simp
  next
    case (Inr p)
    with blank have "title p = []"
      by (simp add: payload_of_title)
    with assms(1) Inr
    have "handleSubmitTodo engine serve w = Returned (w\<lparr>error := Some ''Title is required''\<rparr>)"
      by (simp add: handleSubmitTodo_def)
    then show ?thesis by simp
  qed
  from frame conv show ?thesis by blast
qed

text \<open>Saving row \<open>a\<close> with a title of white space and no due date.\<close>

theorem empty_title_rejected_locally_witness:
  "session world_blank = Some (Session ''u1'') \<and>
   list_all is_space (title_draft world_blank) \<and>
   dueDate world_blank = [] \<and>
   calls (state_after (handleSubmitTodo strict_engine pg_serve world_blank)) = [] \<and>
   db (state_after (handleSubmitTodo strict_engine pg_serve world_blank)) = db world_blank \<and>
   (state_after (handleSubmitTodo strict_engine pg_serve world_blank))
     \<lparr>error := error world_blank\<rparr> = world_blank \<and>
   handleSubmitTodo strict_engine pg_serve world_blank =
     Returned (world_blank\<lparr>error := Some ''Title is required''\<rparr>)"
proof -
  have h1: "session world_blank = Some (Session ''u1'')" by code_simp
  have h2: "list_all is_space (title_draft world_blank)" by code_simp
  have h3: "dueDate world_blank = []" by code_simp
  have c: "calls world_blank = []"
    by (simp add: world_blank_def world0_def)
  from empty_title_rejected_locally [OF h1 h2, of strict_engine pg_serve] h1 h2 h3 c
  show ?thesis by simp
qed

text \<open>
  With a blank title and a due date draft that is no date, the submit throws while it
  builds the payload: no \<open>Title is required\<close> is recorded, the error is cleared instead.
\<close>

theorem empty_title_rejected_locally_counterexample:
  "session world_no_date = Some (Session ''u1'') \<and>
   list_all is_space (title_draft world_no_date) \<and>
   handleSubmitTodo strict_engine pg_serve world_no_date =
     Threw RangeError (world_no_date\<lparr>error := None\<rparr>) \<and>
   error (state_after (handleSubmitTodo strict_engine pg_serve world_no_date)) = None \<and>
   handleSubmitTodo strict_engine pg_serve world_no_date \<noteq>
     Returned (world_no_date\<lparr>error := Some ''Title is required''\<rparr>)"
proof -
  have s: "session world_no_date = Some (Session ''u1'')" by code_simp
  have b: "list_all is_space (title_draft world_no_date)" by code_simp
  have p: "payload_of strict_engine (Session ''u1'') world_no_date = Inl RangeError"
    by code_simp
  have t: "handleSubmitTodo strict_engine pg_serve world_no_date =
             Threw RangeError (world_no_date\<lparr>error := None\<rparr>)"
    using s p by (simp add: handleSubmitTodo_def)
  from s b t show ?thesis by simp
qed

subsection \<open>C7: the order of a fetched collection\<close>

text \<open>
  C7. Against the store, every fetch that succeeds leaves a collection sorted by
  \<open>created_at\<close>, newest first: \<^verbatim>\<open>fetchTodos\<close> itself, and the fetch that ends
  \<^verbatim>\<open>toggleComplete\<close>, \<^verbatim>\<open>deleteTodo\<close> and \<^verbatim>\<open>handleSubmitTodo\<close>, whenever the handler ends
  without an error.
\<close>

theorem fetched_todos_sorted:
  "(error (fetchTodos pg_serve w) = None \<longrightarrow> created_desc (todos (fetchTodos pg_serve w))) \<and>
   (error (toggleComplete pg_serve t w) = None \<longrightarrow>
      created_desc (todos (toggleComplete pg_serve t w))) \<and>
   (error (deleteTodo pg_serve i w) = None \<longrightarrow>
      created_desc (todos (deleteTodo pg_serve i w))) \<and>
   (session w \<noteq> None \<and> handleSubmitTodo engine pg_serve w = Returned w' \<and> error w' = None \<longrightarrow>
      created_desc (todos w'))"
proof (intro conjI impI)
  show "created_desc (todos (fetchTodos pg_serve w))"
    if "error (fetchTodos pg_serve w) = None"
    using that by (rule created_desc_fetchTodos)
  show "created_desc (todos (toggleComplete pg_serve t w))"
    if "error (toggleComplete pg_serve t w) = None"
    using that by (simp add: toggleComplete_error_None created_desc_order)
  show "created_desc (todos (deleteTodo pg_serve i w))"
    if e: "error (deleteTodo pg_serve i w) = None"
  proof (cases "error_message (fst (pg_serve (db w) (caller w) (Delete i)))")
    case None
    from deleteTodo_ok [where serve = pg_serve, OF None] e created_desc_fetchTodos
    show ?thesis by metis
  next
    case (Some m)
    from deleteTodo_fail [where serve = pg_serve, OF Some] e show ?thesis by simp
  qed
  show "created_desc (todos w')"
    if h: "session w \<noteq> None \<and> handleSubmitTodo engine pg_serve w = Returned w' \<and> error w' = None"
  proof -
    from h obtain sess where s: "session w = Some sess" by auto
    show ?thesis
    proof (cases "payload_of engine sess w")
      case (Inl e)
      with s h show ?thesis by (simp add: handleSubmitTodo_def)
    next
      case (Inr p)
      show ?thesis
      proof (cases "title p = []")
        case True
        with s h Inr show ?thesis by (auto simp add: handleSubmitTodo_def)
      next
        case False
        show ?thesis
        proof (cases "error_message (fst (pg_serve (db w) (caller w) (submit_request p w)))")
          case None
          from handleSubmitTodo_ok [where serve = pg_serve, OF s Inr False None] h
            created_desc_fetchTodos
          show ?thesis by (metis outcome.inject(1))
        next
          case (Some m)
          from handleSubmitTodo_fail [where serve = pg_serve, OF s Inr False Some] h
          show ?thesis by auto
        qed
      qed
    qed
  qed
qed

text \<open>
  A store that keeps the older row first: the fetch, and a toggle, a delete and an edit
  of row \<open>a\<close>, each leave the newer row \<open>b\<close> on top.
\<close>

theorem fetched_todos_sorted_witness:
  "error (fetchTodos pg_serve world_edit) = None \<and>
   error (toggleComplete pg_serve row_a world_edit) = None \<and>
   error (deleteTodo pg_serve ''a'' world_edit) = None \<and>
   session world_edit \<noteq> None \<and>
   handleSubmitTodo strict_engine pg_serve world_edit = Returned world_saved \<and>
   error world_saved = None \<and>
   map id_todo (todos (fetchTodos pg_serve world_edit)) = [''b'', ''a''] \<and>
   map title (todos world_saved) = [''B'', ''A2''] \<and>
   created_desc (todos (fetchTodos pg_serve world_edit)) \<and>
   created_desc (todos (toggleComplete pg_serve row_a world_edit)) \<and>
   created_desc (todos (deleteTodo pg_serve ''a'' world_edit)) \<and>
   created_desc (todos world_saved)"
proof -
  have h1: "error (fetchTodos pg_serve world_edit) = None" by code_simp
  have h2: "error (toggleComplete pg_serve row_a world_edit) = None" by code_simp
  have h3: "error (deleteTodo pg_serve ''a'' world_edit) = None" by code_simp
  have h4: "session world_edit \<noteq> None" by code_simp
  have s: "session world_edit = Some (Session ''u1'')" by code_simp
  have p: "payload_of strict_engine (Session ''u1'') world_edit = Inr payload_a2" by code_simp
  have t: "title payload_a2 \<noteq> []" by code_simp
  have q: "submit_request payload_a2 world_edit = Update_payload payload_a2 ''a''" by code_simp
  have e: "error_message (fst (pg_serve (db world_edit) (caller world_edit)
             (submit_request payload_a2 world_edit))) = None"
    by code_simp
  have h5: "handleSubmitTodo strict_engine pg_serve world_edit = Returned world_saved"
    using handleSubmitTodo_ok [where serve = pg_serve, OF s p t e] q
    by (simp add: world_saved_def)
  have h6: "error world_saved = None" by code_simp
  have h7: "map id_todo (todos (fetchTodos pg_serve world_edit)) = [''b'', ''a'']" by code_simp
  have h8: "map title (todos world_saved) = [''B'', ''A2'']" by code_simp
  from fetched_todos_sorted [of world_edit row_a "''a''" strict_engine world_saved]
    h1 h2 h3 h4 h5 h6 h7 h8
  show ?thesis by simp
qed

subsection \<open>C8: session transitions\<close>

text \<open>
  C8. When the session goes from absent to present, the component fetches the tasks: the
  new state is that of \<^verbatim>\<open>fetchTodos\<close> run with the new session, one select request sent.
  When it goes from present to absent, the collection becomes empty and nothing else
  changes but the session: no request is sent and the store is as it was.
\<close>

theorem session_transitions:
  "(session w = None \<longrightarrow>
      onAuthStateChange serve (Some s) w = fetchTodos serve (w\<lparr>session := Some s\<rparr>) \<and>
      calls (onAuthStateChange serve (Some s) w) = calls w @ [Select_ordered]) \<and>
   (session w \<noteq> None \<longrightarrow>
      onAuthStateChange serve None w = w\<lparr>session := None, todos := []\<rparr> \<and>
      todos (onAuthStateChange serve None w) = [] \<and>
      calls (onAuthStateChange serve None w) = calls w \<and>
      db (onAuthStateChange serve None w) = db w)"
  by (auto simp add: onAuthStateChange_def session_effect_def calls_fetchTodos Let_def)

text \<open>Logging in from the state without a session, and logging out again.\<close>

theorem session_transitions_witness:
  "session world_anon = None \<and>
   calls (onAuthStateChange pg_serve (Some (Session ''u1'')) world_anon) = [Select_ordered] \<and>
   todos (onAuthStateChange pg_serve (Some (Session ''u1'')) world_anon) = [row_b, row_a] \<and>
   session world0 \<noteq> None \<and>
   todos (onAuthStateChange pg_serve None world0) = [] \<and>
   calls (onAuthStateChange pg_serve None world0) = [] \<and>
   db (onAuthStateChange pg_serve None world0) = db world0"
proof -
  have h1: "session world_anon = None" by code_simp
  have h2: "session world0 \<noteq> None" by code_simp
  have c: "calls world_anon = []" "calls world0 = []"
    by (simp_all add: world_anon_def world0_def)
  have f: "todos (fetchTodos pg_serve (world_anon\<lparr>session := Some (Session ''u1'')\<rparr>)) =
             [row_b, row_a]"
    by code_simp
  from session_transitions [of world_anon pg_serve "Session ''u1''"]
    session_transitions [of world0 pg_serve] h1 h2 c f
  show ?thesis by (simp add: calls_fetchTodos)
qed

subsection \<open>C9: the owner column in an update\<close>

text \<open>
  C9. A submit in editing mode (a session, an id being edited, a title that is not blank,
  a due date draft that is empty or converts) sends as its first request an update of the
  edited id whose payload carries \<open>user_id\<close>, set to the session's user identifier, next
  to the trimmed title: the owner column is among the columns the update writes.
\<close>

theorem update_payload_carries_user_id:
  assumes "session w = Some sess"
    and "editingId w = Some i" and "i \<noteq> []"
    and "\<not> list_all is_space (title_draft w)"
    and "dueDate w = [] \<or> \<not> isl (Date_toISOString engine (dueDate w))"
  shows "\<exists>p w'. handleSubmitTodo engine serve w = Returned w' \<and>
                prefix (calls w @ [Update_payload p i]) (calls w') \<and>
                user_id p = session_user_id sess \<and>
                title p = trim (title_draft w)"
proof -
  let ?p = "\<lparr>title = trim (title_draft w),
             description = (if trim (description_draft w) \<noteq> []
                            then Some (trim (description_draft w)) else None),
             due_date = (if dueDate w \<noteq> []
                         then Some (projr (Date_toISOString engine (dueDate w))) else None),
             user_id = session_user_id sess\<rparr>"
  have p: "payload_of engine sess w = Inr ?p"
    by (rule payload_of_convertible [OF assms(5)])
  have t: "title ?p \<noteq> []"
    using assms(4) by (simp add: trim_empty_iff)
  have q: "submit_request ?p w = Update_payload ?p i"
    using assms(2,3) by (simp add: submit_request_def)
  from handleSubmitTodo_calls [OF assms(1) p t, of serve] q
  obtain w' where "handleSubmitTodo engine serve w = Returned w'"
    and "prefix (calls w @ [Update_payload ?p i]) (calls w')"
    by auto
  then show ?thesis
    by (intro exI [of _ ?p] exI [of _ w']) simp
qed

text \<open>Saving the new title of row \<open>a\<close>.\<close>

theorem update_payload_carries_user_id_witness:
  "session world_edit = Some (Session ''u1'') \<and> editingId world_edit = Some ''a'' \<and>
   \<not> list_all is_space (title_draft world_edit) \<and> dueDate world_edit = [] \<and>
   (\<exists>p w'. handleSubmitTodo strict_engine pg_serve world_edit = Returned w' \<and>
           prefix (calls world_edit @ [Update_payload p ''a'']) (calls w') \<and>
           user_id p = ''u1'' \<and> title p = ''A2'')"
proof -
  have h1: "session world_edit = Some (Session ''u1'')" by code_simp
  have h2: "editingId world_edit = Some ''a''" by code_simp
  have h3: "''a'' \<noteq> []" by simp
  have h4: "\<not> list_all is_space (title_draft world_edit)" by code_simp
  have h5: "dueDate world_edit = []" by code_simp
  have h6: "dueDate world_edit = [] \<or> \<not> isl (Date_toISOString strict_engine (dueDate world_edit))"
    using h5 by simp
  have c: "trim (title_draft world_edit) = ''A2''" by code_simp
  from update_payload_carries_user_id [OF h1 h2 h3 h4 h6, of pg_serve] h1 h2 h4 h5 c
  show ?thesis by simp
qed

subsection \<open>C10: the due date across an edit\<close>



end
